theory Spec2Isabelle
  imports Main "HOL-Library.AList" "HOL-Library.Word"
begin

section \<open>JavaScript values\<close>

text \<open>
  The values that travel through \<^verbatim>\<open>geojson_worker_source.js\<close>: parsed JSON, feature
  properties, option objects. Numbers are the integers and \<open>NaN\<close>: the only thing the
  code asks about a number is whether it is truthy. An object is the list of its own
  properties in insertion order. A plain object also answers for the members it
  inherits from \<^verbatim>\<open>Object.prototype\<close>: \<open>JInherited key\<close> is the value of the member of
  that name, a function (for \<^verbatim>\<open>__proto__\<close> the prototype object itself).
\<close>

datatype jsval =
    JUndefined
  | JNull
  | JBool bool
  | JNum int
  | JNaN
  | JStr string
  | JArr "jsval list"
  | JObj "(string \<times> jsval) list"
  | JInherited string

type_synonym obj = "(string \<times> jsval) list"

text \<open>A thrown or reported JavaScript error: its class and its message.\<close>

datatype error = Error string | TypeError string | SyntaxError string

text \<open>The error \<^verbatim>\<open>new Error("Input data is not a valid GeoJSON object.")\<close>.\<close>

definition invalidGeoJSON :: error where
  "invalidGeoJSON = Error ''Input data is not a valid GeoJSON object.''"

text \<open>What \<^verbatim>\<open>if (v)\<close> and \<^verbatim>\<open>!v\<close> test.\<close>

fun truthy :: "jsval \<Rightarrow> bool" where
  "truthy JUndefined = False"
| "truthy JNull = False"
| "truthy (JBool b) = b"
| "truthy (JNum n) = (n \<noteq> 0)"
| "truthy JNaN = False"
| "truthy (JStr s) = (s \<noteq> [])"
| "truthy (JArr xs) = True"
| "truthy (JObj ps) = True"
| "truthy (JInherited key) = True"

text \<open>The operator \<^verbatim>\<open>typeof\<close>: \<^verbatim>\<open>null\<close> and arrays are of type \<^verbatim>\<open>'object'\<close>.\<close>

fun typeof :: "jsval \<Rightarrow> string" where
  "typeof JUndefined = ''undefined''"
| "typeof JNull = ''object''"
| "typeof (JBool b) = ''boolean''"
| "typeof (JNum n) = ''number''"
| "typeof JNaN = ''number''"
| "typeof (JStr s) = ''string''"
| "typeof (JArr xs) = ''object''"
| "typeof (JObj ps) = ''object''"
| "typeof (JInherited key) = (if key = ''__proto__'' then ''object'' else ''function'')"

text \<open>The names of the members of \<^verbatim>\<open>Object.prototype\<close>.\<close>

definition inherited :: "string \<Rightarrow> bool" where
  "inherited key =
     (key \<in> set [''constructor'', ''toString'', ''toLocaleString'', ''valueOf'',
                  ''hasOwnProperty'', ''isPrototypeOf'', ''propertyIsEnumerable'',
                  ''__proto__'', ''__defineGetter__'', ''__defineSetter__'',
                  ''__lookupGetter__'', ''__lookupSetter__''])"

text \<open>
  \<^verbatim>\<open>o[key]\<close> on a plain object: the own property, else the inherited member, else
  \<^verbatim>\<open>undefined\<close>.
\<close>

definition js_get :: "obj \<Rightarrow> string \<Rightarrow> jsval" where
  "js_get ps key =
     (case map_of ps key of
        Some v \<Rightarrow> v
      | None \<Rightarrow> if inherited key then JInherited key else JUndefined)"

text \<open>
  \<^verbatim>\<open>props[key]\<close> where \<^verbatim>\<open>props\<close> is the \<^verbatim>\<open>properties\<close> member of a GeoJSON
  feature, an object or \<^verbatim>\<open>null\<close>: reading a property of \<^verbatim>\<open>null\<close> throws.
\<close>

definition get_prop :: "obj option \<Rightarrow> string \<Rightarrow> error + jsval" where
  "get_prop props key =
     (case props of
        None \<Rightarrow> Inl (TypeError ''Cannot read property of null'')
      | Some ps \<Rightarrow> Inr (js_get ps key))"

text \<open>
  \<^verbatim>\<open>data.features\<close>: throws on \<^verbatim>\<open>undefined\<close> and \<^verbatim>\<open>null\<close>, is the property of an
  object and \<^verbatim>\<open>undefined\<close> on an array, a function or a primitive value.
\<close>

fun get_features :: "jsval \<Rightarrow> error + jsval" where
  "get_features JUndefined = Inl (TypeError ''Cannot read property features of undefined'')"
| "get_features JNull = Inl (TypeError ''Cannot read property features of null'')"
| "get_features (JObj ps) = Inr (js_get ps ''features'')"
| "get_features v = Inr JUndefined"

section \<open>Parameters, indexes and the worker's state\<close>

datatype tile_coord = TileCoord (coord_z: int) (coord_x: int) (coord_y: int)

record source_params =
  source :: string

record tile_params = source_params +
  uid :: string
  coord :: tile_coord
  maxZoom :: int

record load_params = source_params +
  url :: "string option"
  data :: jsval
  cluster :: bool
  superclusterOptions :: "obj option"
  geojsonVtOptions :: jsval
  clusterMapProperties :: "string list option"

text \<open>
  A tile of an index carries its feature slice. An index is whatever geojson-vt or
  supercluster returned: the code uses its method \<^verbatim>\<open>getTile(z, x, y)\<close> only, which
  yields a tile or nothing.
\<close>

datatype geojson_tile = GeoJSONTile (tile_features: "jsval list")

datatype index = Index (getTile: "int \<Rightarrow> int \<Rightarrow> int \<Rightarrow> geojson_tile option")

text \<open>
  The tile object that the inherited \<^verbatim>\<open>loadTile\<close> keeps in \<^verbatim>\<open>this.loaded\<close>; the
  code only tests that it is there.
\<close>

datatype worker_tile = WorkerTile string

record worker =
  geoJSONIndexes :: "string \<rightharpoonup> index"
  loaded :: "string \<rightharpoonup> (string \<rightharpoonup> worker_tile)"

text \<open>The state the constructor leaves: no index, nothing loaded.\<close>

definition new_worker :: worker where
  "new_worker = \<lparr>geoJSONIndexes = Map.empty, loaded = Map.empty\<rparr>"

section \<open>Transport tiles\<close>

text \<open>
  A \<^verbatim>\<open>Uint8Array\<close> (or node \<^verbatim>\<open>Buffer\<close>) is a window of \<open>byteLength\<close> bytes at
  \<open>byteOffset\<close> into its underlying buffer.
\<close>

record typed_array =
  buffer :: "8 word list"
  byteOffset :: nat
  byteLength :: nat

definition bytes_of :: "typed_array \<Rightarrow> 8 word list" where
  "bytes_of a = take (byteLength a) (drop (byteOffset a) (buffer a))"

text \<open>\<^verbatim>\<open>new Uint8Array(pbf)\<close>: a copy of the window in a buffer of its own.\<close>

definition new_Uint8Array :: "typed_array \<Rightarrow> typed_array" where
  "new_Uint8Array a =
     \<lparr>buffer = bytes_of a, byteOffset = 0, byteLength = length (bytes_of a)\<rparr>"

record geojson_wrapper =
  features :: "jsval list"
  name :: "string option"
  rawData :: "8 word list option"

text \<open>
  Modelled from the spec: the class \<^verbatim>\<open>GeoJSONWrapper\<close> of \<^verbatim>\<open>./geojson_wrapper\<close> is not
  among the sources. Its constructor wraps the feature slice it is given, the
  feature-level representation of the tile; name and raw bytes are set by the caller.
\<close>

definition GeoJSONWrapper :: "jsval list \<Rightarrow> geojson_wrapper" where
  "GeoJSONWrapper fs = \<lparr>features = fs, name = None, rawData = None\<rparr>"

section \<open>The collaborators\<close>

text \<open>
  The options handed to \<^verbatim>\<open>supercluster(...)\<close>: the caller's option object and the two
  functions that \<^verbatim>\<open>_indexData\<close> may attach to it.
\<close>

record cluster_options =
  options :: "obj option"
  initial :: "(unit \<Rightarrow> obj) option"
  reduce :: "(obj \<Rightarrow> obj option \<Rightarrow> error + obj) option"

text \<open>
  The libraries the module requires are parameters of the model:
  \<^item> \<open>JSON_parse\<close> is \<^verbatim>\<open>JSON.parse\<close>, which returns a value or throws;
  \<^item> \<open>getJSON\<close> gives the pair \<^verbatim>\<open>(err, data)\<close> that \<^verbatim>\<open>ajax.getJSON\<close> calls back with;
  \<^item> \<open>rewind\<close> is geojson-rewind, which returns the rewound data or throws;
  \<^item> \<open>supercluster\<close> is \<^verbatim>\<open>supercluster(options)\<close>, which throws or returns an engine, given
    by its method \<^verbatim>\<open>load(features)\<close>: an index, or a thrown error;
  \<^item> \<open>geojsonvt\<close> is \<^verbatim>\<open>geojsonvt(data, options)\<close>: an index, or a thrown error;
  \<^item> \<open>vtpbf\<close> encodes the layers of a tile;
  \<^item> \<open>customLoadGeoJSON\<close> is the loader given to the constructor, if any: the pair
    \<^verbatim>\<open>(err, data)\<close> it calls back with, once and outside any handler of its own.
  The callbacks of the worker's callers are taken not to throw, and \<^verbatim>\<open>getTile\<close> and
  the encoder are taken to return.
\<close>

record env =
  JSON_parse :: "string \<Rightarrow> error + jsval"
  getJSON :: "string \<Rightarrow> error option \<times> jsval"
  rewind :: "jsval \<Rightarrow> error + jsval"
  supercluster :: "cluster_options \<Rightarrow> error + (jsval \<Rightarrow> error + index)"
  geojsonvt :: "jsval \<Rightarrow> jsval \<Rightarrow> error + index"
  vtpbf :: "(string \<times> geojson_wrapper) list \<Rightarrow> typed_array"
  customLoadGeoJSON :: "(load_params \<Rightarrow> error option \<times> jsval) option"

section \<open>Tile queries: \<^verbatim>\<open>loadGeoJSONTile\<close>\<close>

text \<open>
  \<^verbatim>\<open>this._geoJSONIndexes[source]\<close>: the registry is a plain object, so the lookup
  finds the index stored under the id, else a member inherited from
  \<^verbatim>\<open>Object.prototype\<close>, else nothing. (The inherited members are those of
  \<^verbatim>\<open>Object.prototype\<close> as long as no source named \<^verbatim>\<open>__proto__\<close> has been loaded.)
\<close>

datatype registry_entry = NoEntry | IndexEntry index | InheritedEntry

definition lookupIndex :: "worker \<Rightarrow> string \<Rightarrow> registry_entry" where
  "lookupIndex w key =
     (case geoJSONIndexes w key of
        Some idx \<Rightarrow> IndexEntry idx
      | None \<Rightarrow> if inherited key then InheritedEntry else NoEntry)"

text \<open>
  The result is \<open>Inr\<close> of the pair the callback is called with:
  \<^verbatim>\<open>callback(null, null)\<close> is \<open>(None, None)\<close>, \<^verbatim>\<open>callback(null, geojsonWrapper)\<close> is
  \<open>(None, Some wrapper)\<close>. It is \<open>Inl\<close> of the exception when the function throws:
  an inherited member is truthy and has no method \<^verbatim>\<open>getTile\<close>, so calling it is a
  \<^verbatim>\<open>TypeError\<close>.
\<close>

definition loadGeoJSONTile ::
  "env \<Rightarrow> worker \<Rightarrow> tile_params \<Rightarrow> error + (error option \<times> geojson_wrapper option)" where
  "loadGeoJSONTile e w params =
     (case lookupIndex w (source params) of
        NoEntry \<Rightarrow> Inr (None, None)
      | InheritedEntry \<Rightarrow>
          Inl (TypeError ''this._geoJSONIndexes[source].getTile is not a function'')
      | IndexEntry idx \<Rightarrow>
          (case getTile idx (min (coord_z (coord params)) (maxZoom params))
                  (coord_x (coord params)) (coord_y (coord params)) of
             None \<Rightarrow> Inr (None, None)
           | Some geoJSONTile \<Rightarrow>
               (let geojsonWrapper =
                      (GeoJSONWrapper (tile_features geoJSONTile))
                        \<lparr>name := Some ''_geojsonTileLayer''\<rparr>;
                    pbf = vtpbf e [(''_geojsonTileLayer'', geojsonWrapper)];
                    pbf' = (if byteOffset pbf = 0
                            then (if byteLength pbf = length (buffer pbf)
                                  then pbf else new_Uint8Array pbf)
                            else new_Uint8Array pbf)
                in Inr (None, Some (geojsonWrapper\<lparr>rawData := Some (buffer pbf')\<rparr>)))))"

section \<open>Loading data: \<^verbatim>\<open>loadGeoJSON\<close> and \<^verbatim>\<open>loadData\<close>\<close>

text \<open>
  How a call of \<^verbatim>\<open>loadData\<close> ends: the caller's callback is called with an error or
  with none, or an exception leaves the call uncaught.
\<close>

datatype outcome = Callback "error option" | Uncaught error

text \<open>
  The expression assigned to the index entry,
  \<^verbatim>\<open>params.cluster ? supercluster(params.superclusterOptions).load(data.features)
   : geojsonvt(data, params.geojsonVtOptions)\<close>, with what it throws. The engine is
  constructed before \<^verbatim>\<open>data.features\<close> is read.
\<close>

definition buildIndex :: "env \<Rightarrow> load_params \<Rightarrow> jsval \<Rightarrow> error + index" where
  "buildIndex e params d =
     (if cluster params
      then (case supercluster e
                   \<lparr>options = superclusterOptions params, initial = None, reduce = None\<rparr> of
              Inl ex \<Rightarrow> Inl ex
            | Inr load \<Rightarrow>
                (case get_features d of
                   Inl ex \<Rightarrow> Inl ex
                 | Inr fs \<Rightarrow> load fs))
      else geojsonvt e d (geojsonVtOptions params))"

text \<open>
  The function that \<^verbatim>\<open>loadData\<close> hands to the loader. Only the last branch writes
  the state. \<^verbatim>\<open>rewind\<close> is called before the guarded assignment, so what it throws
  leaves the function.
\<close>

definition loadData_callback ::
  "env \<Rightarrow> load_params \<Rightarrow> error option \<Rightarrow> jsval \<Rightarrow> worker \<Rightarrow> outcome \<times> worker" where
  "loadData_callback e params err d w =
     (case err of
        Some ex \<Rightarrow> (Callback err, w)
      | None \<Rightarrow>
          if truthy d
          then (if typeof d = ''object''
                then (case rewind e d of
                        Inl ex \<Rightarrow> (Uncaught ex, w)
                      | Inr d' \<Rightarrow>
                          (case buildIndex e params d' of
                             Inl ex \<Rightarrow> (Callback (Some ex), w)
                           | Inr idx \<Rightarrow>
                               (Callback None,
                                w\<lparr>geoJSONIndexes := (geoJSONIndexes w)(source params \<mapsto> idx),
                                  loaded := (loaded w)(source params \<mapsto> Map.empty)\<rparr>)))
                else (Callback (Some invalidGeoJSON), w))
          else (Callback err, w))"

text \<open>
  The default loader. With a url it passes on what \<^verbatim>\<open>ajax.getJSON\<close> delivers. With
  textual data it calls the callback inside the block whose exceptions it catches: when
  the parser throws, or when the callback itself throws, the handler calls the callback
  with the error for invalid input. Anything else is invalid input.
\<close>

definition loadGeoJSON ::
  "env \<Rightarrow> load_params \<Rightarrow> (error option \<Rightarrow> jsval \<Rightarrow> worker \<Rightarrow> outcome \<times> worker)
     \<Rightarrow> worker \<Rightarrow> outcome \<times> worker" where
  "loadGeoJSON e params callback w =
     (let literal =
            (case data params of
               JStr text \<Rightarrow>
                 (case JSON_parse e text of
                    Inl ex \<Rightarrow> callback (Some invalidGeoJSON) JUndefined w
                  | Inr v \<Rightarrow>
                      (case callback None v w of
                         (Uncaught ex, w') \<Rightarrow> callback (Some invalidGeoJSON) JUndefined w'
                       | (Callback r, w') \<Rightarrow> (Callback r, w')))
             | _ \<Rightarrow> callback (Some invalidGeoJSON) JUndefined w)
      in case url params of
           None \<Rightarrow> literal
         | Some u \<Rightarrow>
             if u = [] then literal
             else (case getJSON e u of (err, d) \<Rightarrow> callback err d w))"

definition loadData :: "env \<Rightarrow> worker \<Rightarrow> load_params \<Rightarrow> outcome \<times> worker" where
  "loadData e w params =
     (case customLoadGeoJSON e of
        None \<Rightarrow> loadGeoJSON e params (loadData_callback e params) w
      | Some loader \<Rightarrow>
          (case loader params of (err, d) \<Rightarrow> loadData_callback e params err d w))"

section \<open>\<^verbatim>\<open>reloadTile\<close> and \<^verbatim>\<open>removeSource\<close>\<close>





section \<open>Index construction with aggregation: \<^verbatim>\<open>_indexData\<close>\<close>

text \<open>A \<^verbatim>\<open>forEach\<close> whose body may throw: the first exception ends the loop.\<close>

fun forEach :: "('a \<Rightarrow> 's \<Rightarrow> error + 's) \<Rightarrow> 'a list \<Rightarrow> 's \<Rightarrow> error + 's" where
  "forEach f [] s = Inr s"
| "forEach f (k # ks) s = (case f k s of Inl ex \<Rightarrow> Inl ex | Inr s' \<Rightarrow> forEach f ks s')"

text \<open>
  The synthesized \<^verbatim>\<open>initial\<close>: \<^verbatim>\<open>initial[key] = []\<close> for each key. (Under the key
  \<^verbatim>\<open>__proto__\<close> the assignment sets the prototype and not an own property; a read
  under that key returns the assigned array either way, and the code reads an
  accumulator under listed keys only.)
\<close>

definition synth_initial :: "string list \<Rightarrow> unit \<Rightarrow> obj" where
  "synth_initial keys u = fold (\<lambda>key ini. AList.update key (JArr []) ini) keys []"

text \<open>
  The body of the loop of the synthesized \<^verbatim>\<open>reduce\<close>:
  \<^verbatim>\<open>if (props[key]) { accumulated[key].push(props[key]); }\<close>. The push throws when
  \<^verbatim>\<open>accumulated[key]\<close> is not an array.
\<close>

definition reduce_step :: "obj option \<Rightarrow> string \<Rightarrow> obj \<Rightarrow> error + obj" where
  "reduce_step props key accumulated =
     (case get_prop props key of
        Inl ex \<Rightarrow> Inl ex
      | Inr v \<Rightarrow>
          if truthy v
          then (case js_get accumulated key of
                  JArr xs \<Rightarrow> Inr (AList.update key (JArr (xs @ [v])) accumulated)
                | _ \<Rightarrow> Inl (TypeError ''accumulated[key].push is not a function''))
          else Inr accumulated)"

definition synth_reduce :: "string list \<Rightarrow> obj \<Rightarrow> obj option \<Rightarrow> error + obj" where
  "synth_reduce keys accumulated props = forEach (reduce_step props) keys accumulated"

text \<open>
  The options that reach \<^verbatim>\<open>supercluster\<close>: with \<^verbatim>\<open>clusterMapProperties\<close> the two
  functions are assigned to the caller's option object, which throws when there is no
  such object.
\<close>

definition clusterOptions :: "load_params \<Rightarrow> error + cluster_options" where
  "clusterOptions params =
     (case clusterMapProperties params of
        None \<Rightarrow> Inr \<lparr>options = superclusterOptions params, initial = None, reduce = None\<rparr>
      | Some keys \<Rightarrow>
          (case superclusterOptions params of
             None \<Rightarrow> Inl (TypeError ''Cannot set property initial of undefined'')
           | Some so \<Rightarrow>
               Inr \<lparr>options = Some so, initial = Some (synth_initial keys),
                    reduce = Some (synth_reduce keys)\<rparr>))"

text \<open>
  The result is the pair the callback is called with. In cluster mode the options
  are prepared first, then the engine is constructed, then \<^verbatim>\<open>data.features\<close> is read
  and loaded; the first of these to throw decides the error.
\<close>

definition indexData :: "env \<Rightarrow> jsval \<Rightarrow> load_params \<Rightarrow> error option \<times> index option" where
  "indexData e d params =
     (if cluster params
      then (case clusterOptions params of
              Inl ex \<Rightarrow> (Some ex, None)
            | Inr opts \<Rightarrow>
                (case supercluster e opts of
                   Inl ex \<Rightarrow> (Some ex, None)
                 | Inr load \<Rightarrow>
                     (case get_features d of
                        Inl ex \<Rightarrow> (Some ex, None)
                      | Inr fs \<Rightarrow>
                          (case load fs of
                             Inl ex \<Rightarrow> (Some ex, None)
                           | Inr idx \<Rightarrow> (None, Some idx)))))
      else (case geojsonvt e d (geojsonVtOptions params) of
              Inl ex \<Rightarrow> (Some ex, None)
            | Inr idx \<Rightarrow> (None, Some idx)))"

text \<open>
  Modelled from the spec: supercluster is not among the sources. The Cluster Index
  Engine starts a cluster from \<^verbatim>\<open>initial()\<close> and applies \<^verbatim>\<open>reduce\<close> to the accumulator
  and the properties of each clustered point, in the order it meets the points.
\<close>

fun accumulate ::
  "(obj \<Rightarrow> obj option \<Rightarrow> error + obj) \<Rightarrow> obj \<Rightarrow> obj option list \<Rightarrow> error + obj" where
  "accumulate r acc [] = Inr acc"
| "accumulate r acc (p # ps) =
     (case r acc p of Inl ex \<Rightarrow> Inl ex | Inr acc' \<Rightarrow> accumulate r acc' ps)"

definition aggregate :: "cluster_options \<Rightarrow> obj option list \<Rightarrow> (error + obj) option" where
  "aggregate opts points =
     (case initial opts of
        None \<Rightarrow> None
      | Some i \<Rightarrow>
          (case reduce opts of
             None \<Rightarrow> None
           | Some r \<Rightarrow> Some (accumulate r (i ()) points)))"

text \<open>
  What the loader calls back with first, read off \<^verbatim>\<open>loadGeoJSON\<close> branch by branch
  (or taken from the loader given to the constructor): the pair \<^verbatim>\<open>(err, data)\<close> that
  reaches the function of \<^verbatim>\<open>loadData\<close>.
\<close>

definition delivered :: "env \<Rightarrow> load_params \<Rightarrow> error option \<times> jsval" where
  "delivered e params =
     (let literal =
            (case data params of
               JStr text \<Rightarrow>
                 (case JSON_parse e text of
                    Inl ex \<Rightarrow> (Some invalidGeoJSON, JUndefined)
                  | Inr v \<Rightarrow> (None, v))
             | _ \<Rightarrow> (Some invalidGeoJSON, JUndefined))
      in case customLoadGeoJSON e of
           Some loader \<Rightarrow> loader params
         | None \<Rightarrow>
             (case url params of
                None \<Rightarrow> literal
              | Some u \<Rightarrow> if u = [] then literal else getJSON e u))"

section \<open>Vocabulary for the aggregation\<close>

text \<open>The accumulator holds an array under the key.\<close>

definition is_array_at :: "obj \<Rightarrow> string \<Rightarrow> bool" where
  "is_array_at acc key = (case map_of acc key of Some (JArr xs) \<Rightarrow> True | _ \<Rightarrow> False)"

text \<open>
  The values one call of \<^verbatim>\<open>reduce\<close> pushes under a key: the feature's value, once for
  each time the key is listed, when the value is truthy.
\<close>

definition pushed :: "string list \<Rightarrow> obj \<Rightarrow> string \<Rightarrow> jsval list" where
  "pushed keys ps key =
     (if truthy (js_get ps key) then replicate (count_list keys key) (js_get ps key) else [])"

text \<open>The entry under a key after values are appended to the array it holds.\<close>

definition extended :: "obj \<Rightarrow> string \<Rightarrow> jsval list \<Rightarrow> jsval option" where
  "extended acc key vs =
     (case map_of acc key of Some (JArr xs) \<Rightarrow> Some (JArr (xs @ vs)) | other \<Rightarrow> other)"

section \<open>Sample inputs\<close>

text \<open>
  An index with one tile, at zoom 2, and one that differs from it above zoom 2 only.
\<close>

definition sample_index :: index where
  "sample_index =
     Index (\<lambda>zoom tx ty.
       if zoom = 2 \<and> tx = 1 \<and> ty = 1
       then Some (GeoJSONTile [JObj [(''id'', JNum 1)]]) else None)"

definition other_index :: index where
  "other_index =
     Index (\<lambda>zoom tx ty.
       if zoom = 2 \<and> tx = 1 \<and> ty = 1
       then Some (GeoJSONTile [JObj [(''id'', JNum 1)]])
       else if zoom = 5 then Some (GeoJSONTile []) else None)"

text \<open>A polygon without coordinates, as a loader may deliver it.\<close>

definition bad_polygon :: jsval where
  "bad_polygon = JObj [(''type'', JStr ''Polygon'')]"

text \<open>
  Collaborators for the examples. The parser knows four texts and the fetcher two
  urls. Like geojson-rewind, the normalization throws a \<^verbatim>\<open>TypeError\<close> on a polygon
  without coordinates. Like supercluster, the cluster engine throws a \<^verbatim>\<open>TypeError\<close>
  when it is given no array of points; like geojson-vt, the tile engine rejects what
  is not a GeoJSON object. The encoder returns a window into a larger buffer, as a node
  \<^verbatim>\<open>Buffer\<close> does.
\<close>

definition sample_rewind :: "jsval \<Rightarrow> error + jsval" where
  "sample_rewind d =
     (if d = bad_polygon
      then Inl (TypeError ''Cannot read property length of undefined'')
      else Inr d)"

definition sample_load_points :: "jsval \<Rightarrow> error + index" where
  "sample_load_points fs =
     (case fs of
        JArr ps \<Rightarrow> Inr sample_index
      | _ \<Rightarrow> Inl (TypeError ''Cannot read property length of undefined''))"

definition sample_env :: env where
  "sample_env =
     \<lparr>JSON_parse = (\<lambda>t. if t = ''[]'' then Inr (JArr [])
                         else if t = ''null'' then Inr JNull
                         else if t = ''{}'' then Inr (JObj [])
                         else if t = ''7'' then Inr (JNum 7)
                         else Inl (SyntaxError ''Unexpected token'')),
      getJSON = (\<lambda>u. if u = ''/empty.json'' then (None, JNull)
                      else if u = ''/polygon.json'' then (None, bad_polygon)
                      else (Some (Error ''Not Found''), JUndefined)),
      rewind = sample_rewind,
      supercluster = (\<lambda>opts. Inr sample_load_points),
      geojsonvt = (\<lambda>d opts. case d of
                      JObj ps \<Rightarrow> Inr sample_index
                    | _ \<Rightarrow> Inl invalidGeoJSON),
      vtpbf = (\<lambda>layers. \<lparr>buffer = [0, 26, 3, 120, 2, 1, 0], byteOffset = 1, byteLength = 5\<rparr>),
      customLoadGeoJSON = None\<rparr>"

text \<open>The same with a loader of its own, which delivers the polygon.\<close>

definition custom_env :: env where
  "custom_env = sample_env\<lparr>customLoadGeoJSON := Some (\<lambda>params. (None, bad_polygon))\<rparr>"

definition sample_tile :: tile_params where
  "sample_tile = \<lparr>source = ''points'', uid = ''7'', coord = TileCoord 5 1 1, maxZoom = 2\<rparr>"

definition sample_load :: load_params where
  "sample_load =
     \<lparr>source = ''points'', url = None, data = JStr ''[]'', cluster = True,
      superclusterOptions = Some [], geojsonVtOptions = JUndefined,
      clusterMapProperties = Some [''name'']\<rparr>"

definition sample_worker :: worker where
  "sample_worker =
     \<lparr>geoJSONIndexes = [''points'' \<mapsto> sample_index],
      loaded = [''points'' \<mapsto> [''7'' \<mapsto> WorkerTile ''7'']]\<rparr>"

section \<open>What a call of \<^verbatim>\<open>loadData\<close> can do\<close>

text \<open>
  A call either leaves the state as it was, or it reports success and has stored an index
  and an empty tracking set for its source. Only the winding normalization can make
  a call end with an uncaught exception.
\<close>

lemma loadData_callback_effect:
  "loadData_callback e params err d w = (out, w') \<Longrightarrow>
     w' = w \<or> (out = Callback None \<and>
       (\<exists>idx. w' = w\<lparr>geoJSONIndexes := (geoJSONIndexes w)(source params \<mapsto> idx),
                      loaded := (loaded w)(source params \<mapsto> Map.empty)\<rparr>))"
  by (auto simp: loadData_callback_def split: option.splits if_splits sum.splits)

lemma loadData_callback_Uncaught:
  "loadData_callback e params err d w = (Uncaught ex, w') \<Longrightarrow>
     w' = w \<and> err = None \<and> rewind e d = Inl ex"
  by (auto simp: loadData_callback_def split: option.splits if_splits sum.splits)

lemma loadData_callback_error:
  "loadData_callback e params (Some ex) d w = (Callback (Some ex), w)"
  by (simp add: loadData_callback_def)

lemma loadGeoJSON_effect:
  "loadGeoJSON e params (loadData_callback e params) w = (out, w') \<Longrightarrow>
     w' = w \<or> (out = Callback None \<and>
       (\<exists>idx. w' = w\<lparr>geoJSONIndexes := (geoJSONIndexes w)(source params \<mapsto> idx),
                      loaded := (loaded w)(source params \<mapsto> Map.empty)\<rparr>))"
  unfolding loadGeoJSON_def Let_def
  by (auto split: option.splits if_splits sum.splits jsval.splits prod.splits outcome.splits
      dest: loadData_callback_effect loadData_callback_Uncaught simp: loadData_callback_error)

lemma loadData_effect:
  "loadData e w params = (out, w') \<Longrightarrow>
     w' = w \<or> (out = Callback None \<and>
       (\<exists>idx. w' = w\<lparr>geoJSONIndexes := (geoJSONIndexes w)(source params \<mapsto> idx),
                      loaded := (loaded w)(source params \<mapsto> Map.empty)\<rparr>))"
  unfolding loadData_def
  by (auto split: option.splits prod.splits dest: loadData_callback_effect loadGeoJSON_effect)

lemma loadData_Uncaught:
  "loadData e w params = (Uncaught ex, w') \<Longrightarrow> \<exists>d. rewind e d = Inl ex"
  unfolding loadData_def loadGeoJSON_def Let_def
  by (auto split: option.splits if_splits sum.splits jsval.splits prod.splits outcome.splits
      dest: loadData_callback_Uncaught simp: loadData_callback_error)

lemma loadData_delivered:
  assumes "delivered e params = (err, d)"
    and "loadData_callback e params err d w = (Callback r, w')"
  shows "loadData e w params = (Callback r, w')"
  using assms
  unfolding loadData_def loadGeoJSON_def delivered_def Let_def
  by (auto split: option.splits if_splits sum.splits jsval.splits prod.splits
      simp: loadData_callback_error)

lemma loadData_callback_falsy:
  "\<not> truthy d \<Longrightarrow> loadData_callback e params None d w = (Callback None, w)"
  by (simp add: loadData_callback_def)

lemma loadData_callback_not_object:
  "truthy d \<Longrightarrow> typeof d \<noteq> ''object'' \<Longrightarrow>
     loadData_callback e params None d w = (Callback (Some invalidGeoJSON), w)"
  by (simp add: loadData_callback_def)

lemma loadData_callback_build_fails:
  "truthy d \<Longrightarrow> typeof d = ''object'' \<Longrightarrow> rewind e d = Inr d' \<Longrightarrow>
   buildIndex e params d' = Inl ex \<Longrightarrow>
     loadData_callback e params None d w = (Callback (Some ex), w)"
  by (simp add: loadData_callback_def)


section \<open>The synthesized functions\<close>

lemma fold_initial_map:
  "map_of (fold (\<lambda>key ini. AList.update key (JArr []) ini) keys acc) k =
     (if k \<in> set keys then Some (JArr []) else map_of acc k)"
  by (induction keys arbitrary: acc) (auto simp: update_conv')

lemma synth_initial_map:
  "map_of (synth_initial keys u) k = (if k \<in> set keys then Some (JArr []) else None)"
  by (simp add: synth_initial_def fold_initial_map)

lemma is_array_at_update:
  "is_array_at (AList.update key (JArr ys) acc) k = (k = key \<or> is_array_at acc k)"
  by (auto simp: is_array_at_def update_conv')

lemma reduce_step_ok:
  assumes "is_array_at acc key"
  shows "\<exists>acc'. reduce_step (Some ps) key acc = Inr acc'
           \<and> (\<forall>k. is_array_at acc' k = is_array_at acc k)
           \<and> (\<forall>k. map_of acc' k =
                 extended acc k (if k = key \<and> truthy (js_get ps key) then [js_get ps key] else []))"
  using assms
  by (auto simp: reduce_step_def get_prop_def js_get_def is_array_at_def extended_def update_conv'
      split: option.splits jsval.splits)

lemma extended_extended:
  "(\<And>k. m k = extended acc k (f k)) \<Longrightarrow>
     (case m k of Some (JArr xs) \<Rightarrow> Some (JArr (xs @ vs)) | other \<Rightarrow> other)
       = extended acc k (f k @ vs)"
  by (auto simp: extended_def split: option.splits jsval.splits)

lemma forEach_reduce_step:
  assumes "list_all (is_array_at acc) keys"
  shows "\<exists>acc'. forEach (reduce_step (Some ps)) keys acc = Inr acc'
           \<and> (\<forall>k. is_array_at acc' k = is_array_at acc k)
           \<and> (\<forall>k. map_of acc' k = extended acc k (pushed keys ps k))"
  using assms
proof (induction keys arbitrary: acc)
  case Nil
  show ?case by (simp add: pushed_def extended_def split: option.splits jsval.splits)
next
  case (Cons key keys)
  from Cons.prems have a: "is_array_at acc key" and b: "list_all (is_array_at acc) keys"
    by simp_all
  from reduce_step_ok [OF a, of ps] obtain acc1 where
    s1: "reduce_step (Some ps) key acc = Inr acc1"
    and s2: "\<And>k. is_array_at acc1 k = is_array_at acc k"
    and s3: "\<And>k. map_of acc1 k =
               extended acc k (if k = key \<and> truthy (js_get ps key) then [js_get ps key] else [])"
    by blast
  from b s2 have "list_all (is_array_at acc1) keys"
    by (simp add: list_all_iff)
  from Cons.IH [OF this] obtain acc2 where
    t1: "forEach (reduce_step (Some ps)) keys acc1 = Inr acc2"
    and t2: "\<And>k. is_array_at acc2 k = is_array_at acc1 k"
    and t3: "\<And>k. map_of acc2 k = extended acc1 k (pushed keys ps k)"
    by blast
  have "map_of acc2 k = extended acc k (pushed (key # keys) ps k)" for k
  proof -
    have "map_of acc2 k =
            (case map_of acc1 k of Some (JArr xs) \<Rightarrow> Some (JArr (xs @ pushed keys ps k))
             | other \<Rightarrow> other)"
      by (simp add: t3 extended_def)
    also have "\<dots> = extended acc k
        ((if k = key \<and> truthy (js_get ps key) then [js_get ps key] else []) @ pushed keys ps k)"
      by (rule extended_extended) (rule s3)
    also have "(if k = key \<and> truthy (js_get ps key) then [js_get ps key] else [])
                 @ pushed keys ps k = pushed (key # keys) ps k"
      by (auto simp: pushed_def)
    finally show ?thesis .
  qed
  with s1 t1 t2 s2 show ?case by simp
qed

lemma synth_reduce_ok:
  assumes "list_all (is_array_at acc) keys"
  shows "\<exists>acc'. synth_reduce keys acc (Some ps) = Inr acc'
           \<and> (\<forall>k. is_array_at acc' k = is_array_at acc k)
           \<and> (\<forall>k. map_of acc' k = extended acc k (pushed keys ps k))"
  unfolding synth_reduce_def using assms by (rule forEach_reduce_step)

lemma accumulate_synth_reduce:
  assumes "list_all (is_array_at acc) keys"
  shows "\<exists>acc'. accumulate (synth_reduce keys) acc (map Some pss) = Inr acc'
           \<and> (\<forall>k. map_of acc' k = extended acc k (concat (map (\<lambda>ps. pushed keys ps k) pss)))"
  using assms
proof (induction pss arbitrary: acc)
  case Nil
  show ?case by (simp add: extended_def split: option.splits jsval.splits)
next
  case (Cons ps pss)
  from synth_reduce_ok [OF Cons.prems, of ps] obtain acc1 where
    s1: "synth_reduce keys acc (Some ps) = Inr acc1"
    and s2: "\<And>k. is_array_at acc1 k = is_array_at acc k"
    and s3: "\<And>k. map_of acc1 k = extended acc k (pushed keys ps k)"
    by blast
  from Cons.prems s2 have "list_all (is_array_at acc1) keys"
    by (simp add: list_all_iff)
  from Cons.IH [OF this] obtain acc2 where
    t1: "accumulate (synth_reduce keys) acc1 (map Some pss) = Inr acc2"
    and t3: "\<And>k. map_of acc2 k = extended acc1 k (concat (map (\<lambda>ps. pushed keys ps k) pss))"
    by blast
  have "map_of acc2 k = extended acc k (concat (map (\<lambda>ps. pushed keys ps k) (ps # pss)))" for k
  proof -
    have "map_of acc2 k =
            (case map_of acc1 k of
               Some (JArr xs) \<Rightarrow> Some (JArr (xs @ concat (map (\<lambda>ps. pushed keys ps k) pss)))
             | other \<Rightarrow> other)"
      by (simp add: t3 extended_def)
    also have "\<dots> = extended acc k (pushed keys ps k @ concat (map (\<lambda>ps. pushed keys ps k) pss))"
      by (rule extended_extended) (rule s3)
    finally show ?thesis by simp
  qed
  with s1 t1 show ?case by simp
qed

lemma initial_arrays: "list_all (is_array_at (synth_initial keys ())) keys"
  by (simp add: list_all_iff is_array_at_def synth_initial_map)

lemma count_list_distinct: "distinct ks \<Longrightarrow> k \<in> set ks \<Longrightarrow> count_list ks k = 1"
  by (induction ks) auto

lemma pushed_distinct:
  "distinct keys \<Longrightarrow> k \<in> set keys \<Longrightarrow>
     concat (map (\<lambda>ps. pushed keys ps k) pss) = filter truthy (map (\<lambda>ps. js_get ps k) pss)"
  by (induction pss) (auto simp: pushed_def count_list_distinct)

lemma pushed_not_inherited:
  "\<not> inherited k \<Longrightarrow>
     pushed keys ps k =
       (case map_of ps k of
          Some v \<Rightarrow> if truthy v then replicate (count_list keys k) v else []
        | None \<Rightarrow> [])"
  by (simp add: pushed_def js_get_def split: option.splits)

lemma synth_reduce_null:
  "keys \<noteq> [] \<Longrightarrow>
     synth_reduce keys acc None = Inl (TypeError ''Cannot read property of null'')"
  by (cases keys) (simp_all add: synth_reduce_def reduce_step_def get_prop_def)

lemma accumulate_null:
  assumes "keys \<noteq> []"
  shows "None \<in> set points \<Longrightarrow> list_all (is_array_at acc) keys \<Longrightarrow>
           \<exists>ex. accumulate (synth_reduce keys) acc points = Inl ex"
proof (induction points arbitrary: acc)
  case Nil
  then show ?case by simp
next
  case (Cons p points)
  show ?case
  proof (cases p)
    case None
    with assms show ?thesis by (simp add: synth_reduce_null)
  next
    case (Some ps)
    from synth_reduce_ok [OF Cons.prems(2), of ps] obtain acc1 where
      s1: "synth_reduce keys acc (Some ps) = Inr acc1"
      and s2: "\<And>k. is_array_at acc1 k = is_array_at acc k"
      by blast
    from Cons.prems(2) s2 have a: "list_all (is_array_at acc1) keys"
      by (simp add: list_all_iff)
    from Cons.prems(1) Some have "None \<in> set points" by simp
    from Cons.IH [OF this a] s1 Some show ?thesis by simp
  qed
qed

lemma loadData_text_rewind_throws:
  assumes "customLoadGeoJSON e = None"
    and "url params = None \<or> url params = Some []"
    and "data params = JStr t"
    and "JSON_parse e t = Inr d"
    and "truthy d" and "typeof d = ''object''"
    and "rewind e d = Inl ex"
  shows "loadData e w params = (Callback (Some invalidGeoJSON), w)"
  using assms
  unfolding loadData_def loadGeoJSON_def Let_def
  by (auto simp: loadData_callback_def)

lemma loadData_rewind_uncaught:
  assumes "delivered e params = (None, d)"
    and "truthy d" and "typeof d = ''object''"
    and "rewind e d = Inl ex"
    and "(\<exists>loader. customLoadGeoJSON e = Some loader) \<or> (\<exists>u. url params = Some u \<and> u \<noteq> [])"
  shows "loadData e w params = (Uncaught ex, w)"
  using assms
  unfolding loadData_def loadGeoJSON_def delivered_def Let_def
  by (auto simp: loadData_callback_def split: option.splits)

section \<open>The sample inputs evaluated\<close>

lemma sample_env_sel:
  "JSON_parse sample_env ''[]'' = Inr (JArr [])"
  "JSON_parse sample_env ''null'' = Inr JNull"
  "JSON_parse sample_env ''{}'' = Inr (JObj [])"
  "JSON_parse sample_env ''7'' = Inr (JNum 7)"
  "JSON_parse sample_env ''{'' = Inl (SyntaxError ''Unexpected token'')"
  "getJSON sample_env ''/empty.json'' = (None, JNull)"
  "getJSON sample_env ''/missing.json'' = (Some (Error ''Not Found''), JUndefined)"
  "getJSON sample_env ''/polygon.json'' = (None, bad_polygon)"
  "rewind sample_env (JArr ps) = Inr (JArr ps)"
  "rewind sample_env (JObj []) = Inr (JObj [])"
  "rewind sample_env bad_polygon = Inl (TypeError ''Cannot read property length of undefined'')"
  "supercluster sample_env opts = Inr sample_load_points"
  "sample_load_points JUndefined = Inl (TypeError ''Cannot read property length of undefined'')"
  "sample_load_points (JArr ps) = Inr sample_index"
  "geojsonvt sample_env (JObj qs) v = Inr sample_index"
  "geojsonvt sample_env (JArr ps) v = Inl invalidGeoJSON"
  "vtpbf sample_env ls = \<lparr>buffer = [0, 26, 3, 120, 2, 1, 0], byteOffset = 1, byteLength = 5\<rparr>"
  "customLoadGeoJSON sample_env = None"
  by (simp_all add: sample_env_def sample_rewind_def sample_load_points_def bad_polygon_def)

lemma sample_worker_sel:
  "geoJSONIndexes sample_worker ''points'' = Some sample_index"
  "geoJSONIndexes sample_worker ''lines'' = None"
  "geoJSONIndexes sample_worker ''constructor'' = None"
  "geoJSONIndexes sample_worker ''__proto__'' = None"
  "loaded sample_worker ''points'' = Some [''7'' \<mapsto> WorkerTile ''7'']"
  by (simp_all add: sample_worker_def)

lemma sample_index_sel:
  "getTile sample_index 2 1 1 = Some (GeoJSONTile [JObj [(''id'', JNum 1)]])"
  "getTile sample_index 2 0 0 = None"
  "getTile sample_index 5 1 1 = None"
  by (simp_all add: sample_index_def)

lemma sample_load_sel:
  "source sample_load = ''points''"
  "url sample_load = None"
  "data sample_load = JStr ''[]''"
  "cluster sample_load = True"
  "superclusterOptions sample_load = Some []"
  "geojsonVtOptions sample_load = JUndefined"
  "clusterMapProperties sample_load = Some [''name'']"
  by (simp_all add: sample_load_def)

lemma sample_tile_sel:
  "source sample_tile = ''points''"
  "uid sample_tile = ''7''"
  "coord sample_tile = TileCoord 5 1 1"
  "maxZoom sample_tile = 2"
  by (simp_all add: sample_tile_def)

lemma custom_env_sel:
  "rewind custom_env bad_polygon = Inl (TypeError ''Cannot read property length of undefined'')"
  "customLoadGeoJSON custom_env = Some (\<lambda>params. (None, bad_polygon))"
  by (simp_all add: custom_env_def sample_env_sel)

lemma bad_polygon_object: "truthy bad_polygon" "typeof bad_polygon = ''object''"
  by (simp_all add: bad_polygon_def)

lemma other_index_sel:
  "getTile other_index 2 1 1 = Some (GeoJSONTile [JObj [(''id'', JNum 1)]])"
  "getTile other_index 5 1 1 = Some (GeoJSONTile [])"
  by (simp_all add: other_index_def)

lemma sample_delivered:
  "delivered sample_env (sample_load\<lparr>data := JStr ''null''\<rparr>) = (None, JNull)"
  "delivered sample_env (sample_load\<lparr>data := JStr ''{''\<rparr>) = (Some invalidGeoJSON, JUndefined)"
  "delivered sample_env (sample_load\<lparr>data := JStr ''7''\<rparr>) = (None, JNum 7)"
  "delivered sample_env (sample_load\<lparr>data := JStr ''{}'', cluster := False\<rparr>) = (None, JObj [])"
  "delivered sample_env sample_load = (None, JArr [])"
  "delivered sample_env (sample_load\<lparr>url := Some ''/missing.json''\<rparr>)
     = (Some (Error ''Not Found''), JUndefined)"
  "delivered sample_env (sample_load\<lparr>url := Some ''/empty.json''\<rparr>) = (None, JNull)"
  "delivered sample_env (sample_load\<lparr>url := Some ''/polygon.json''\<rparr>) = (None, bad_polygon)"
  "delivered custom_env sample_load = (None, bad_polygon)"
  by (simp_all add: delivered_def sample_env_sel sample_load_sel custom_env_sel)

lemma sample_buildIndex:
  "buildIndex sample_env sample_load (JArr [])
     = Inl (TypeError ''Cannot read property length of undefined'')"
  "buildIndex sample_env (sample_load\<lparr>data := JStr ''{}'', cluster := False\<rparr>) (JObj [])
     = Inr sample_index"
  by (simp_all add: buildIndex_def sample_env_sel sample_load_sel)

lemma lookupIndex_sel:
  "lookupIndex sample_worker ''points'' = IndexEntry sample_index"
  "lookupIndex sample_worker ''lines'' = NoEntry"
  "lookupIndex sample_worker ''constructor'' = InheritedEntry"
  by (simp_all add: lookupIndex_def sample_worker_sel inherited_def)

section \<open>Tile queries\<close>

text \<open>
  C1, as stated, asks that the answer for a source without a registered index be
  never an error and differ from the answer for a known source whose index has no
  slice for the tile. The code calls back with \<^verbatim>\<open>(null, null)\<close> in both cases: with
  the sample worker, the answer for the unknown source \<open>lines\<close> is the answer for the
  empty tile 2/0/0 of the known source \<open>points\<close>. And for the unregistered id
  \<open>constructor\<close> the lookup finds the inherited member and the call throws.
\<close>

theorem no_source_is_empty_tile:
  "geoJSONIndexes sample_worker ''lines'' = None
   \<and> geoJSONIndexes sample_worker ''points'' = Some sample_index
   \<and> getTile sample_index 2 0 0 = None
   \<and> loadGeoJSONTile sample_env sample_worker (sample_tile\<lparr>source := ''lines''\<rparr>)
       = loadGeoJSONTile sample_env sample_worker (sample_tile\<lparr>coord := TileCoord 2 0 0\<rparr>)
   \<and> geoJSONIndexes sample_worker ''constructor'' = None
   \<and> loadGeoJSONTile sample_env sample_worker (sample_tile\<lparr>source := ''constructor''\<rparr>)
       = Inl (TypeError ''this._geoJSONIndexes[source].getTile is not a function'')"
  by (simp add: loadGeoJSONTile_def lookupIndex_sel sample_worker_sel
      sample_tile_sel sample_index_sel)

text \<open>
  C1 (amended): for every tile query whose source id has no registered index and is
  not the name of a member the registry inherits (a member of \<^verbatim>\<open>Object.prototype\<close>,
  with no source registered under \<^verbatim>\<open>__proto__\<close>), the callback is called with no
  error and no tile, \<^verbatim>\<open>(null, null)\<close>; this is never an error. A known source whose
  index yields no slice for the requested tile gets the same \<^verbatim>\<open>(null, null)\<close>, so the
  result does not tell the two cases apart.
\<close>

theorem loadGeoJSONTile_no_source:
  "(geoJSONIndexes w (source params) = None \<and> \<not> inherited (source params)
      \<and> geoJSONIndexes w ''__proto__'' = None \<longrightarrow>
      loadGeoJSONTile e w params = Inr (None, None))
   \<and> (geoJSONIndexes w' (source params') = Some idx
        \<and> getTile idx (min (coord_z (coord params')) (maxZoom params'))
              (coord_x (coord params')) (coord_y (coord params')) = None \<longrightarrow>
      loadGeoJSONTile e w' params' = Inr (None, None))"
  by (simp add: loadGeoJSONTile_def lookupIndex_def)

theorem loadGeoJSONTile_no_source_witness:
  "geoJSONIndexes sample_worker ''lines'' = None
   \<and> \<not> inherited ''lines''
   \<and> geoJSONIndexes sample_worker ''__proto__'' = None
   \<and> loadGeoJSONTile sample_env sample_worker (sample_tile\<lparr>source := ''lines''\<rparr>)
       = Inr (None, None)
   \<and> geoJSONIndexes sample_worker ''points'' = Some sample_index
   \<and> getTile sample_index (min 2 2) 0 0 = None
   \<and> loadGeoJSONTile sample_env sample_worker (sample_tile\<lparr>coord := TileCoord 2 0 0\<rparr>)
       = Inr (None, None)"
  using loadGeoJSONTile_no_source [of sample_worker "sample_tile\<lparr>source := ''lines''\<rparr>"
      sample_env sample_worker "sample_tile\<lparr>coord := TileCoord 2 0 0\<rparr>" sample_index]
  by (simp add: sample_worker_sel sample_tile_sel sample_index_sel inherited_def)

text \<open>
  C5: for every tile query against a registered source the answer is made from what
  the index yields at zoom \<open>min (zoom, maxZoom)\<close>, and from nothing else of the index:
  the empty answer when there is no tile at the clamped zoom, the wrapped tile of the
  clamped zoom otherwise. So a request above \<open>maxZoom\<close> is answered like the request at
  the clamped zoom.
\<close>

theorem loadGeoJSONTile_clamped_zoom:
  assumes "geoJSONIndexes w (source params) = Some idx"
  shows "loadGeoJSONTile e w params =
           (case getTile idx (min (coord_z (coord params)) (maxZoom params))
                   (coord_x (coord params)) (coord_y (coord params)) of
              None \<Rightarrow> Inr (None, None)
            | Some t \<Rightarrow>
                Inr (None,
                     Some \<lparr>features = tile_features t, name = Some ''_geojsonTileLayer'',
                           rawData = Some (bytes_of (vtpbf e
                             [(''_geojsonTileLayer'',
                               \<lparr>features = tile_features t, name = Some ''_geojsonTileLayer'',
                                rawData = None\<rparr>)]))\<rparr>))
         \<and> loadGeoJSONTile e w params
             = loadGeoJSONTile e w
                 (params\<lparr>coord := TileCoord (min (coord_z (coord params)) (maxZoom params))
                                    (coord_x (coord params)) (coord_y (coord params))\<rparr>)"
  using assms
  by (simp add: loadGeoJSONTile_def lookupIndex_def GeoJSONWrapper_def Let_def
      new_Uint8Array_def bytes_of_def split: option.splits)

theorem loadGeoJSONTile_clamped_zoom_witness:
  "geoJSONIndexes sample_worker (source sample_tile) = Some sample_index
   \<and> coord sample_tile = TileCoord 5 1 1
   \<and> maxZoom sample_tile = 2
   \<and> getTile sample_index 5 1 1 = None
   \<and> getTile sample_index 2 1 1 = Some (GeoJSONTile [JObj [(''id'', JNum 1)]])
   \<and> loadGeoJSONTile sample_env sample_worker sample_tile =
       Inr (None, Some \<lparr>features = [JObj [(''id'', JNum 1)]], name = Some ''_geojsonTileLayer'',
                         rawData = Some [26, 3, 120, 2, 1]\<rparr>)
   \<and> loadGeoJSONTile sample_env sample_worker sample_tile
       = loadGeoJSONTile sample_env sample_worker (sample_tile\<lparr>coord := TileCoord 2 1 1\<rparr>)"
  using loadGeoJSONTile_clamped_zoom [of sample_worker sample_tile sample_index sample_env]
  by (auto simp: sample_worker_sel sample_tile_sel sample_index_sel sample_env_sel bytes_of_def)

text \<open>
  C8: when the index yields a slice, the callback gets, with no error, the wrapper of
  that slice, named \<^verbatim>\<open>_geojsonTileLayer\<close> whatever the source, with the raw data set
  to the bytes the encoder produced for the one layer of that name holding the wrapper.
\<close>

theorem loadGeoJSONTile_wraps_slice:
  "geoJSONIndexes w (source params) = Some idx \<Longrightarrow>
   getTile idx (min (coord_z (coord params)) (maxZoom params))
       (coord_x (coord params)) (coord_y (coord params)) = Some t \<Longrightarrow>
   loadGeoJSONTile e w params =
     Inr (None,
      Some \<lparr>features = tile_features t, name = Some ''_geojsonTileLayer'',
            rawData = Some (bytes_of (vtpbf e
              [(''_geojsonTileLayer'',
                \<lparr>features = tile_features t, name = Some ''_geojsonTileLayer'',
                 rawData = None\<rparr>)]))\<rparr>)"
  by (simp add: loadGeoJSONTile_def lookupIndex_def GeoJSONWrapper_def Let_def
      new_Uint8Array_def bytes_of_def)

theorem loadGeoJSONTile_wraps_slice_witness:
  "geoJSONIndexes sample_worker (source sample_tile) = Some sample_index
   \<and> getTile sample_index (min 5 2) 1 1 = Some (GeoJSONTile [JObj [(''id'', JNum 1)]])
   \<and> loadGeoJSONTile sample_env sample_worker sample_tile =
       Inr (None, Some \<lparr>features = [JObj [(''id'', JNum 1)]], name = Some ''_geojsonTileLayer'',
                    rawData = Some [26, 3, 120, 2, 1]\<rparr>)"
  using loadGeoJSONTile_wraps_slice [of sample_worker sample_tile sample_index
      "GeoJSONTile [JObj [(''id'', JNum 1)]]" sample_env]
  by (simp add: sample_worker_sel sample_tile_sel sample_index_sel sample_env_sel bytes_of_def)

section \<open>Loading data\<close>

text \<open>
  The failures that \<^verbatim>\<open>loadData\<close> does report: any outcome other than a reported
  success leaves the state as it was; an error the loader delivers, data that is not
  of type object and an exception thrown while the index is built reach the callback.
\<close>

lemma loadData_reported_failures:
  "(loadData e w params = (out, w') \<and> out \<noteq> Callback None \<longrightarrow> w' = w)
   \<and> (loadData e w params = (Uncaught ex, w') \<longrightarrow> (\<exists>v. rewind e v = Inl ex))
   \<and> (delivered e params = (Some ex, d) \<longrightarrow>
        loadData e w params = (Callback (Some ex), w))
   \<and> (delivered e params = (None, d) \<and> truthy d \<and> typeof d \<noteq> ''object'' \<longrightarrow>
        loadData e w params = (Callback (Some invalidGeoJSON), w))
   \<and> (delivered e params = (None, d) \<and> truthy d \<and> typeof d = ''object''
        \<and> rewind e d = Inr d' \<and> buildIndex e params d' = Inl ex \<longrightarrow>
        loadData e w params = (Callback (Some ex), w))"
proof (intro conjI impI)
  assume "loadData e w params = (out, w') \<and> out \<noteq> Callback None"
  then show "w' = w" by (auto dest: loadData_effect)
next
  assume "loadData e w params = (Uncaught ex, w')"
  then show "\<exists>v. rewind e v = Inl ex" by (rule loadData_Uncaught)
next
  assume "delivered e params = (Some ex, d)"
  then show "loadData e w params = (Callback (Some ex), w)"
    by (rule loadData_delivered) (rule loadData_callback_error)
next
  assume "delivered e params = (None, d) \<and> truthy d \<and> typeof d \<noteq> ''object''"
  then show "loadData e w params = (Callback (Some invalidGeoJSON), w)"
    by (auto intro: loadData_delivered simp: loadData_callback_not_object)
next
  assume "delivered e params = (None, d) \<and> truthy d \<and> typeof d = ''object''
            \<and> rewind e d = Inr d' \<and> buildIndex e params d' = Inl ex"
  then show "loadData e w params = (Callback (Some ex), w)"
    by (auto intro: loadData_delivered simp: loadData_callback_build_fails)
qed

text \<open>
  What becomes of textual data that parses to a JSON array: it is truthy and of type
  object, so it goes through the normalization to the index engine.
\<close>

lemma loadData_json_array:
  assumes "customLoadGeoJSON e = None"
    and "url params = None \<or> url params = Some []"
    and "data params = JStr t"
    and "JSON_parse e t = Inr (JArr xs)"
  shows "loadData e w params =
     (case rewind e (JArr xs) of
        Inl ex \<Rightarrow> (Callback (Some invalidGeoJSON), w)
      | Inr d' \<Rightarrow>
          (case buildIndex e params d' of
             Inl ex \<Rightarrow> (Callback (Some ex), w)
           | Inr idx \<Rightarrow>
               (Callback None,
                w\<lparr>geoJSONIndexes := (geoJSONIndexes w)(source params \<mapsto> idx),
                  loaded := (loaded w)(source params \<mapsto> Map.empty)\<rparr>)))"
  using assms
  unfolding loadData_def loadGeoJSON_def Let_def
  by (auto simp: loadData_callback_def split: sum.splits)

text \<open>
  C4: the claim asks that every failure of \<^verbatim>\<open>loadData\<close>, invalid input included, be
  handed to the callback and never leave the call as an uncaught exception. The
  code calls the winding normalization before its guarded block: on a polygon without
  coordinates, delivered by an injected loader or fetched from a url, the exception
  of the normalization leaves \<^verbatim>\<open>loadData\<close> and the callback is never called. (The
  state is left as it was. With textual data the same exception is caught by the
  loader and reported as invalid input, see \<open>loadData_text_rewind_throws\<close>; the
  general statement of the escape is \<open>loadData_rewind_uncaught\<close>.)
\<close>

theorem loadData_rewind_escapes:
  "delivered custom_env sample_load = (None, bad_polygon)
   \<and> loadData custom_env sample_worker sample_load
       = (Uncaught (TypeError ''Cannot read property length of undefined''), sample_worker)
   \<and> delivered sample_env (sample_load\<lparr>url := Some ''/polygon.json''\<rparr>) = (None, bad_polygon)
   \<and> loadData sample_env sample_worker (sample_load\<lparr>url := Some ''/polygon.json''\<rparr>)
       = (Uncaught (TypeError ''Cannot read property length of undefined''), sample_worker)"
  by (simp add: sample_delivered loadData_def loadGeoJSON_def loadData_callback_def
      custom_env_sel sample_env_sel sample_load_sel bad_polygon_object)

text \<open>
  C9: when the loader calls back with no error and with data that is falsy,
  \<^verbatim>\<open>loadData\<close> calls its callback with no error, and neither the index entries nor
  the tracking of loaded tiles change.
\<close>

theorem loadData_no_data_reports_success:
  assumes "delivered e params = (None, d)" and "\<not> truthy d"
  shows "loadData e w params = (Callback None, w)"
  using assms(1) loadData_callback_falsy [OF assms(2)] by (rule loadData_delivered)

theorem loadData_no_data_reports_success_witness:
  "delivered sample_env (sample_load\<lparr>data := JStr ''null''\<rparr>) = (None, JNull)
   \<and> \<not> truthy JNull
   \<and> loadData sample_env sample_worker (sample_load\<lparr>data := JStr ''null''\<rparr>)
       = (Callback None, sample_worker)
   \<and> loadData sample_env sample_worker (sample_load\<lparr>url := Some ''/empty.json''\<rparr>)
       = (Callback None, sample_worker)"
  using loadData_no_data_reports_success
      [of sample_env "sample_load\<lparr>data := JStr ''null''\<rparr>" JNull sample_worker]
    loadData_no_data_reports_success
      [of sample_env "sample_load\<lparr>url := Some ''/empty.json''\<rparr>" JNull sample_worker]
  by (simp add: sample_delivered)

text \<open>
  C6: the claim asks that textual data which parses to a JSON array fail with the
  error for invalid input and create no index entry. The guard of \<^verbatim>\<open>loadData\<close>,
  \<^verbatim>\<open>typeof data !== 'object'\<close>, lets an array pass, so the error for invalid input is
  not raised there and the array reaches the index engine. In cluster mode the engine
  is given \<^verbatim>\<open>data.features\<close>, which an array does not have; with an engine that throws
  a \<^verbatim>\<open>TypeError\<close> on it, as supercluster does, the callback gets that \<^verbatim>\<open>TypeError\<close>
  and not the error for invalid input.
\<close>

theorem loadData_json_array_passes_guard:
  "customLoadGeoJSON sample_env = None
   \<and> url sample_load = None
   \<and> data sample_load = JStr ''[]''
   \<and> cluster sample_load
   \<and> JSON_parse sample_env ''[]'' = Inr (JArr [])
   \<and> truthy (JArr [])
   \<and> typeof (JArr []) = ''object''
   \<and> loadData sample_env new_worker sample_load
       = (Callback (Some (TypeError ''Cannot read property length of undefined'')), new_worker)
   \<and> TypeError ''Cannot read property length of undefined'' \<noteq> invalidGeoJSON"
  using loadData_json_array [of sample_env sample_load "''[]''" "[]" new_worker]
  by (simp add: sample_env_sel sample_load_sel sample_buildIndex invalidGeoJSON_def)

section \<open>Reloading tiles and removing sources\<close>








section \<open>Aggregation of cluster properties\<close>

text \<open>
  C2, as stated, asks that \<^verbatim>\<open>reduce\<close> append a feature's value whenever the key is
  present in its properties. The guard is \<^verbatim>\<open>if (props[key])\<close>: a feature whose
  \<open>count\<close> is 0 has the key, and nothing is appended.
\<close>

theorem reduce_skips_falsy_value:
  "map_of [(''count'', JNum 0)] ''count'' = Some (JNum 0)
   \<and> synth_initial [''count''] () = [(''count'', JArr [])]
   \<and> synth_reduce [''count''] [(''count'', JArr [])] (Some [(''count'', JNum 0)])
       = Inr [(''count'', JArr [])]"
  by (simp add: synth_initial_def synth_reduce_def reduce_step_def get_prop_def js_get_def)

text \<open>
  C2 (amended): when \<^verbatim>\<open>clusterMapProperties\<close> is supplied to \<^verbatim>\<open>_indexData\<close> in
  cluster mode, together with an option object, the engine is constructed with a
  synthesized \<^verbatim>\<open>initial\<close> and \<^verbatim>\<open>reduce\<close>. \<^verbatim>\<open>initial\<close> returns one empty sequence per
  listed key. \<^verbatim>\<open>reduce\<close>, given an accumulator that holds a sequence under each listed
  key and a feature whose properties are an object, appends under each listed key the
  value \<^verbatim>\<open>props[key]\<close> whenever that value is truthy, once for each time the key is
  listed: for a key that \<^verbatim>\<open>Object.prototype\<close> does not define, this is the feature's
  own value, and a key that is absent or present with \<^verbatim>\<open>0\<close>, \<^verbatim>\<open>NaN\<close>, the empty
  string, \<^verbatim>\<open>false\<close> or \<^verbatim>\<open>null\<close> adds nothing. Given a feature whose properties are
  \<^verbatim>\<open>null\<close>, \<^verbatim>\<open>reduce\<close> throws a \<^verbatim>\<open>TypeError\<close> as soon as a key is listed. Applied to
  the points of a cluster in the order they are met, with distinct keys and properties
  that are objects, the accumulator holds under each key the truthy values in that
  order: for the key \<open>name\<close> and two points named \<open>A\<close> and \<open>B\<close>, the sequence \<open>A\<close>,
  \<open>B\<close>.
\<close>

theorem indexData_aggregation:
  assumes "cluster params"
    and "clusterMapProperties params = Some keys"
    and "superclusterOptions params = Some so"
  shows
  "clusterOptions params =
      Inr \<lparr>options = Some so, initial = Some (synth_initial keys),
           reduce = Some (synth_reduce keys)\<rparr>
   \<and> indexData e d params =
       (case supercluster e
               \<lparr>options = Some so, initial = Some (synth_initial keys),
                reduce = Some (synth_reduce keys)\<rparr> of
          Inl ex \<Rightarrow> (Some ex, None)
        | Inr load \<Rightarrow>
            (case get_features d of
               Inl ex \<Rightarrow> (Some ex, None)
             | Inr fs \<Rightarrow>
                 (case load fs of
                    Inl ex \<Rightarrow> (Some ex, None)
                  | Inr idx \<Rightarrow> (None, Some idx))))
   \<and> (\<forall>k. map_of (synth_initial keys ()) k = (if k \<in> set keys then Some (JArr []) else None))
   \<and> (\<forall>acc ps. list_all (is_array_at acc) keys \<longrightarrow>
        (\<exists>acc'. synth_reduce keys acc (Some ps) = Inr acc'
           \<and> (\<forall>k. map_of acc' k = extended acc k (pushed keys ps k))))
   \<and> (\<forall>ps k. \<not> inherited k \<longrightarrow>
        pushed keys ps k =
          (case map_of ps k of
             Some v \<Rightarrow> if truthy v then replicate (count_list keys k) v else []
           | None \<Rightarrow> []))
   \<and> (keys \<noteq> [] \<longrightarrow>
        (\<forall>acc. synth_reduce keys acc None = Inl (TypeError ''Cannot read property of null'')))
   \<and> (distinct keys \<longrightarrow>
        (\<forall>pss. \<exists>acc'.
           aggregate \<lparr>options = Some so, initial = Some (synth_initial keys),
                      reduce = Some (synth_reduce keys)\<rparr> (map Some pss) = Some (Inr acc')
           \<and> (\<forall>k. map_of acc' k =
                 (if k \<in> set keys
                  then Some (JArr (filter truthy (map (\<lambda>ps. js_get ps k) pss)))
                  else None))))
   \<and> (keys \<noteq> [] \<longrightarrow>
        (\<forall>points. None \<in> set points \<longrightarrow>
           (\<exists>ex. aggregate \<lparr>options = Some so, initial = Some (synth_initial keys),
                             reduce = Some (synth_reduce keys)\<rparr> points = Some (Inl ex))))"
proof (intro conjI allI impI)
  show c: "clusterOptions params =
      Inr \<lparr>options = Some so, initial = Some (synth_initial keys),
           reduce = Some (synth_reduce keys)\<rparr>"
    using assms by (simp add: clusterOptions_def)
  show "indexData e d params =
       (case supercluster e
               \<lparr>options = Some so, initial = Some (synth_initial keys),
                reduce = Some (synth_reduce keys)\<rparr> of
          Inl ex \<Rightarrow> (Some ex, None)
        | Inr load \<Rightarrow>
            (case get_features d of
               Inl ex \<Rightarrow> (Some ex, None)
             | Inr fs \<Rightarrow>
                 (case load fs of
                    Inl ex \<Rightarrow> (Some ex, None)
                  | Inr idx \<Rightarrow> (None, Some idx))))"
    using assms(1) by (simp add: indexData_def c)
next
  fix k
  show "map_of (synth_initial keys ()) k = (if k \<in> set keys then Some (JArr []) else None)"
    by (rule synth_initial_map)
next
  fix acc ps
  assume "list_all (is_array_at acc) keys"
  from synth_reduce_ok [OF this, of ps]
  show "\<exists>acc'. synth_reduce keys acc (Some ps) = Inr acc'
           \<and> (\<forall>k. map_of acc' k = extended acc k (pushed keys ps k))"
    by blast
next
  fix ps k
  assume "\<not> inherited k"
  then show "pushed keys ps k =
          (case map_of ps k of
             Some v \<Rightarrow> if truthy v then replicate (count_list keys k) v else []
           | None \<Rightarrow> [])"
    by (rule pushed_not_inherited)
next
  fix acc
  assume "keys \<noteq> []"
  then show "synth_reduce keys acc None = Inl (TypeError ''Cannot read property of null'')"
    by (rule synth_reduce_null)
next
  fix pss
  assume dist: "distinct keys"
  from accumulate_synth_reduce [OF initial_arrays, of keys pss] obtain acc' where
    a1: "accumulate (synth_reduce keys) (synth_initial keys ()) (map Some pss) = Inr acc'"
    and a2: "\<And>k. map_of acc' k =
        extended (synth_initial keys ()) k (concat (map (\<lambda>ps. pushed keys ps k) pss))"
    by blast
  have "map_of acc' k =
          (if k \<in> set keys
           then Some (JArr (filter truthy (map (\<lambda>ps. js_get ps k) pss)))
           else None)" for k
    using dist by (simp add: a2 extended_def synth_initial_map pushed_distinct)
  with a1 show "\<exists>acc'.
       aggregate \<lparr>options = Some so, initial = Some (synth_initial keys),
                  reduce = Some (synth_reduce keys)\<rparr> (map Some pss) = Some (Inr acc')
       \<and> (\<forall>k. map_of acc' k =
             (if k \<in> set keys
              then Some (JArr (filter truthy (map (\<lambda>ps. js_get ps k) pss)))
              else None))"
    by (simp add: aggregate_def)
next
  fix points :: "obj option list"
  assume "keys \<noteq> []" and "None \<in> set points"
  from accumulate_null [OF this initial_arrays]
  show "\<exists>ex. aggregate \<lparr>options = Some so, initial = Some (synth_initial keys),
                         reduce = Some (synth_reduce keys)\<rparr> points = Some (Inl ex)"
    by (simp add: aggregate_def)
qed

theorem indexData_aggregation_witness:
  "cluster sample_load
   \<and> clusterMapProperties sample_load = Some [''name'']
   \<and> superclusterOptions sample_load = Some []
   \<and> map_of (synth_initial [''name''] ()) ''name'' = Some (JArr [])
   \<and> list_all (is_array_at [(''name'', JArr [JStr ''A''])]) [''name'']
   \<and> (\<exists>acc'. synth_reduce [''name''] [(''name'', JArr [JStr ''A''])] (Some [(''name'', JStr ''B'')])
               = Inr acc'
         \<and> map_of acc' ''name'' = Some (JArr [JStr ''A'', JStr ''B'']))
   \<and> \<not> inherited ''name''
   \<and> (\<exists>acc'. synth_reduce [''name''] [(''name'', JArr [JStr ''A''])] (Some [(''id'', JNum 1)])
               = Inr acc'
         \<and> map_of acc' ''name'' = Some (JArr [JStr ''A'']))
   \<and> synth_reduce [''name''] [(''name'', JArr [JStr ''A''])] None
       = Inl (TypeError ''Cannot read property of null'')
   \<and> distinct [''name'']
   \<and> (\<exists>acc'. aggregate \<lparr>options = Some [], initial = Some (synth_initial [''name'']),
                          reduce = Some (synth_reduce [''name''])\<rparr>
                 [Some [(''name'', JStr ''A'')], Some [(''name'', JStr ''B'')]] = Some (Inr acc')
         \<and> map_of acc' ''name'' = Some (JArr [JStr ''A'', JStr ''B'']))
   \<and> (\<exists>ex. aggregate \<lparr>options = Some [], initial = Some (synth_initial [''name'']),
                        reduce = Some (synth_reduce [''name''])\<rparr>
                 [Some [(''name'', JStr ''A'')], None] = Some (Inl ex))"
proof -
  have h: "cluster sample_load" "clusterMapProperties sample_load = Some [''name'']"
    "superclusterOptions sample_load = Some []"
    by (simp_all add: sample_load_sel)
  note t = indexData_aggregation [OF h, of sample_env JUndefined]
  have arr: "list_all (is_array_at [(''name'', JArr [JStr ''A''])]) [''name'']"
    by (simp add: is_array_at_def)
  have ni: "\<not> inherited ''name''"
    by (simp add: inherited_def)
  from t have i: "map_of (synth_initial [''name''] ()) ''name'' = Some (JArr [])"
    by simp
  from t ni have p1: "pushed [''name''] [(''name'', JStr ''B'')] ''name'' = [JStr ''B'']"
    and p2: "pushed [''name''] [(''id'', JNum 1)] ''name'' = []"
    by simp_all
  from t arr obtain acc1 where
    r1: "synth_reduce [''name''] [(''name'', JArr [JStr ''A''])] (Some [(''name'', JStr ''B'')])
           = Inr acc1"
    and r2: "\<And>k. map_of acc1 k =
           extended [(''name'', JArr [JStr ''A''])] k (pushed [''name''] [(''name'', JStr ''B'')] k)"
    by blast
  have r3: "map_of acc1 ''name'' = Some (JArr [JStr ''A'', JStr ''B''])"
    by (simp add: r2 p1 extended_def)
  from t arr obtain acc3 where
    q1: "synth_reduce [''name''] [(''name'', JArr [JStr ''A''])] (Some [(''id'', JNum 1)])
           = Inr acc3"
    and q2: "\<And>k. map_of acc3 k =
           extended [(''name'', JArr [JStr ''A''])] k (pushed [''name''] [(''id'', JNum 1)] k)"
    by blast
  have q3: "map_of acc3 ''name'' = Some (JArr [JStr ''A''])"
    by (simp add: q2 p2 extended_def)
  from t have n: "synth_reduce [''name''] [(''name'', JArr [JStr ''A''])] None
       = Inl (TypeError ''Cannot read property of null'')"
    by simp
  from t have "\<forall>pss. \<exists>acc'.
           aggregate \<lparr>options = Some [], initial = Some (synth_initial [''name'']),
                      reduce = Some (synth_reduce [''name''])\<rparr> (map Some pss) = Some (Inr acc')
           \<and> (\<forall>k. map_of acc' k =
                 (if k \<in> set [''name'']
                  then Some (JArr (filter truthy (map (\<lambda>ps. js_get ps k) pss)))
                  else None))"
    by simp
  then obtain acc2 where
    g1: "aggregate \<lparr>options = Some [], initial = Some (synth_initial [''name'']),
                      reduce = Some (synth_reduce [''name''])\<rparr>
           (map Some [[(''name'', JStr ''A'')], [(''name'', JStr ''B'')]]) = Some (Inr acc2)"
    and g2: "\<And>k. map_of acc2 k =
                 (if k \<in> set [''name'']
                  then Some (JArr (filter truthy (map (\<lambda>ps. js_get ps k)
                      [[(''name'', JStr ''A'')], [(''name'', JStr ''B'')]])))
                  else None)"
    by blast
  have g3: "map_of acc2 ''name'' = Some (JArr [JStr ''A'', JStr ''B''])"
    by (simp add: g2 js_get_def)
  from g1 have g4: "aggregate \<lparr>options = Some [], initial = Some (synth_initial [''name'']),
                      reduce = Some (synth_reduce [''name''])\<rparr>
           [Some [(''name'', JStr ''A'')], Some [(''name'', JStr ''B'')]] = Some (Inr acc2)"
    by simp
  from t have "\<forall>points. None \<in> set points \<longrightarrow>
           (\<exists>ex. aggregate \<lparr>options = Some [], initial = Some (synth_initial [''name'']),
                             reduce = Some (synth_reduce [''name''])\<rparr> points = Some (Inl ex))"
    by simp
  then have e: "\<exists>ex. aggregate \<lparr>options = Some [], initial = Some (synth_initial [''name'']),
                        reduce = Some (synth_reduce [''name''])\<rparr>
                 [Some [(''name'', JStr ''A'')], None] = Some (Inl ex)"
    by simp
  from h i arr r1 r3 ni q1 q3 n g3 g4 e show ?thesis by auto
qed

end
